theory Spec2Isabelle
  imports Complex_Main "HOL-Library.Sublist" "HOL-Library.AList"
begin

section \<open>Strings\<close>

text \<open>
  A string is a list of code units below 256, the range U+0000 to U+00FF of JavaScript's
  strings; each operation has its JavaScript meaning on that range.
  \<^item> \<open>s.includes(p)\<close> is \<open>str_includes s p\<close> (contiguous sublist),
  \<^item> \<open>s.endsWith(p)\<close> is \<open>endsWith s p\<close>,
  \<^item> \<open>s.toLowerCase()\<close> maps A to Z, and the letters U+00C0 to U+00DE but for the
    multiplication sign U+00D7, to the code unit 32 above.
\<close>

definition str_includes :: "string \<Rightarrow> string \<Rightarrow> bool" where
  "str_includes s p = sublist p s"

definition endsWith :: "string \<Rightarrow> string \<Rightarrow> bool" where
  "endsWith s p = suffix p s"

definition lowerChar :: "char \<Rightarrow> char" where
  "lowerChar c =
     (let n = (of_char c :: nat)
      in if (65 \<le> n \<and> n \<le> 90) \<or> (192 \<le> n \<and> n \<le> 222 \<and> n \<noteq> 215) then char_of (n + 32) else c)"

definition toLowerCase :: "string \<Rightarrow> string" where
  "toLowerCase s = map lowerChar s"

text \<open>
  The white space that \<open>parseInt\<close> skips and that the regular expression class \<open>\s\<close>
  matches: tab, line feed, vertical tab, form feed, carriage return, space and the
  no-break space U+00A0.
\<close>

definition isWhiteSpace :: "char \<Rightarrow> bool" where
  "isWhiteSpace c =
     (c \<in> set [CHR 0x09, CHR 0x0A, CHR 0x0B, CHR 0x0C, CHR 0x0D, CHR 0x20, CHR 0xA0])"

definition isDigit :: "char \<Rightarrow> bool" where
  "isDigit c = (c \<in> set ''0123456789'')"

definition digitVal :: "char \<Rightarrow> nat" where
  "digitVal c =
     (case map_of (zip ''0123456789'' [0, 1, 2, 3, 4, 5, 6, 7, 8, 9]) c of
        Some d \<Rightarrow> d
      | None \<Rightarrow> 0)"

text \<open>The integer a string of decimal digits denotes.\<close>

definition digitsVal :: "string \<Rightarrow> nat" where
  "digitsVal ds = foldl (\<lambda>acc c. 10 * acc + digitVal c) 0 ds"

section \<open>Numbers\<close>

text \<open>
  A JavaScript number that is an integer, infinite or NaN. The integers that are numbers
  are those with at most 53 significant bits below \<open>2 ^ 1024\<close>; any other integer is
  rounded to the nearest of them, a tie going to the one with an even significand, and to
  infinity from \<open>2 ^ 1024 - 2 ^ 970\<close> on.
\<close>

datatype number = NaN | Finite int | PlusInfinity | MinusInfinity

text \<open>The number of bits beyond 53 that the binary numeral of \<open>n\<close> has.\<close>

function excessBits :: "nat \<Rightarrow> nat" where
  "excessBits n = (if n < 2 ^ 53 then 0 else Suc (excessBits (n div 2)))"
  by pat_completeness auto
termination
  by (relation "measure (\<lambda>n. n)") auto

text \<open>The number nearest to a natural number; \<open>None\<close> is infinity.\<close>

definition toDouble :: "nat \<Rightarrow> nat option" where
  "toDouble n =
     (let e = excessBits n;
          q = n div 2 ^ e;
          r = n mod 2 ^ e;
          q' = (if 2 ^ e < 2 * r \<or> (2 * r = 2 ^ e \<and> odd q) then q + 1 else q)
      in if q' * 2 ^ e < 2 ^ 1024 then Some (q' * 2 ^ e) else None)"

definition isFinite :: "number \<Rightarrow> bool" where
  "isFinite x = (case x of Finite i \<Rightarrow> True | _ \<Rightarrow> False)"

text \<open>
  \<open>parseInt(s, 10)\<close>: leading white space is skipped, one sign is read, then the longest
  run of decimal digits; no digit gives NaN, and the integer read is returned as the
  number nearest to it, which is infinite for a numeral that is too long.
\<close>

definition parseInt :: "string \<Rightarrow> number" where
  "parseInt s =
     (let s1 = dropWhile isWhiteSpace s;
          neg = (s1 \<noteq> [] \<and> hd s1 = CHR ''-'');
          s2 = (if s1 \<noteq> [] \<and> (hd s1 = CHR ''-'' \<or> hd s1 = CHR ''+'') then tl s1 else s1);
          ds = takeWhile isDigit s2
      in if ds = [] then NaN
         else (case toDouble (digitsVal ds) of
                 Some m \<Rightarrow> Finite (if neg then - int m else int m)
               | None \<Rightarrow> if neg then MinusInfinity else PlusInfinity))"

section \<open>The process environment\<close>

text \<open>
  \<open>process.env\<close> maps variable names to strings; an unset variable reads \<open>undefined\<close>.
  \<open>a || b\<close> on such values takes \<open>b\<close> when \<open>a\<close> is undefined or the empty string.
\<close>

type_synonym env = "string \<rightharpoonup> string"

definition js_or :: "string option \<Rightarrow> string option \<Rightarrow> string option" where
  "js_or a b = (case a of Some v \<Rightarrow> (if v = [] then b else Some v) | None \<Rightarrow> b)"

definition env_or :: "env \<Rightarrow> string \<Rightarrow> string \<Rightarrow> string" where
  "env_or e k d = (case js_or (e k) (Some d) of Some v \<Rightarrow> v | None \<Rightarrow> d)"

section \<open>Retry budget\<close>

text \<open>\<open>ZaiMcpClient.getRetryCount\<close>.\<close>

definition getRetryCount :: "env \<Rightarrow> string \<Rightarrow> int" where
  "getRetryCount e toolName =
     (let globalRetries = parseInt (env_or e ''ZAI_MCP_RETRY_COUNT'' ''0'') in
      if str_includes toolName ''.vision.'' then
        (case js_or (e ''ZAI_MCP_VISION_RETRY_COUNT'') (e ''Z_AI_RETRY_COUNT'') of
           Some visionRetriesRaw \<Rightarrow>
             (case parseInt visionRetriesRaw of Finite parsed \<Rightarrow> parsed | _ \<Rightarrow> 0)
         | None \<Rightarrow> 2)
      else (case globalRetries of Finite g \<Rightarrow> g | _ \<Rightarrow> 0))"

section \<open>Errors\<close>

text \<open>
  Modelled from the spec: the module \<open>lib/errors\<close> that declares the error classes is
  not among the sources. The constructors are the classes the client imports and raises
  (\<open>new ApiError(message, statusCode)\<close>, \<open>new AuthError(message)\<close>,
  \<open>new NetworkError(message)\<close>, \<open>new TimeoutError(ms)\<close>,
  \<open>new ValidationError(message)\<close>) and \<open>UnknownToolError\<close>, which only the
  specification's taxonomy names. A number that may be NaN is an \<open>int option\<close>.
\<close>

datatype error =
    ApiError string int
  | AuthError string
  | NetworkError string
  | TimeoutError "int option"
  | ValidationError string
  | UnknownToolError string

text \<open>
  What a \<open>catch\<close> clause receives has type \<open>unknown\<close>: the class of the value, as far
  as the \<open>instanceof\<close> tests of the client can tell, and its text, which is
  \<open>error.message\<close> for an \<open>Error\<close> and \<open>String(error)\<close> for anything else.
\<close>

datatype err_class = IsAuthError | IsValidationError | IsApiError int | IsOtherError | IsNotError

datatype thrown = Thrown (cls: err_class) (message: string)

definition isError :: "thrown \<Rightarrow> bool" where
  "isError t = (cls t \<noteq> IsNotError)"

text \<open>An exception leaving the client: one it constructed, or a foreign one passing through.\<close>

datatype exn = Raised error | Propagated thrown

section \<open>Configuration\<close>

text \<open>
  The module constants. A constant is an integer or NaN (\<open>None\<close>); an infinite constant
  has no place in this record.
\<close>

record config =
  DEFAULT_TIMEOUT_MS :: "int option"
  DEFAULT_RETRY_BASE_MS :: "int option"
  DEFAULT_RETRY_MAX_MS :: "int option"
  DEFAULT_RETRY_JITTER_MS :: "int option"
  DEFAULT_TOOL_CACHE_TTL_MS :: "int option"
  TOOL_CACHE_ENABLED :: bool

definition TOOL_CACHE_VERSION :: int where
  "TOOL_CACHE_VERSION = 1"

text \<open>A number as a constant of the record, if it has a place there.\<close>

definition asConstant :: "number \<Rightarrow> int option option" where
  "asConstant x =
     (case x of
        NaN \<Rightarrow> Some None
      | Finite i \<Rightarrow> Some (Some i)
      | PlusInfinity \<Rightarrow> None
      | MinusInfinity \<Rightarrow> None)"

text \<open>
  The constants as the module computes them from the environment when it is loaded;
  \<open>None\<close> when a variable holds a numeral so long that its constant is infinite.
\<close>

definition loadConstants :: "env \<Rightarrow> config option" where
  "loadConstants e =
     (case (asConstant (parseInt (env_or e ''Z_AI_TIMEOUT'' ''300000'')),
            asConstant (parseInt (env_or e ''ZAI_MCP_RETRY_BASE_MS'' ''500'')),
            asConstant (parseInt (env_or e ''ZAI_MCP_RETRY_MAX_MS'' ''8000'')),
            asConstant (parseInt (env_or e ''ZAI_MCP_RETRY_JITTER_MS'' ''250'')),
            asConstant (parseInt (env_or e ''ZAI_MCP_TOOL_CACHE_TTL_MS'' ''86400000''))) of
        (Some timeout, Some base, Some mx, Some jit, Some ttl) \<Rightarrow>
          Some \<lparr> DEFAULT_TIMEOUT_MS = timeout,
                 DEFAULT_RETRY_BASE_MS = base,
                 DEFAULT_RETRY_MAX_MS = mx,
                 DEFAULT_RETRY_JITTER_MS = jit,
                 DEFAULT_TOOL_CACHE_TTL_MS = ttl,
                 TOOL_CACHE_ENABLED =
                   (toLowerCase (env_or e ''ZAI_MCP_TOOL_CACHE'' ''1'') \<notin> set [''0'', ''false'']) \<rparr>
      | _ \<Rightarrow> None)"

text \<open>The constants when none of the variables is set.\<close>

definition default_constants :: config where
  "default_constants =
     \<lparr> DEFAULT_TIMEOUT_MS = Some 300000,
       DEFAULT_RETRY_BASE_MS = Some 500,
       DEFAULT_RETRY_MAX_MS = Some 8000,
       DEFAULT_RETRY_JITTER_MS = Some 250,
       DEFAULT_TOOL_CACHE_TTL_MS = Some 86400000,
       TOOL_CACHE_ENABLED = True \<rparr>"

section \<open>Error classification\<close>

text \<open>\<open>ZaiMcpClient.isRetriableError\<close>.\<close>

definition isRetriableError :: "thrown \<Rightarrow> bool" where
  "isRetriableError error =
     (if cls error = IsAuthError \<or> cls error = IsValidationError then False
      else
        let normalized = toLowerCase (message error) in
        if str_includes normalized ''401'' \<or> str_includes normalized ''403''
           \<or> str_includes normalized ''auth''
        then False
        else
          (str_includes normalized ''timeout'' \<or>
           str_includes normalized ''timed out'' \<or>
           str_includes normalized ''etimedout'' \<or>
           str_includes normalized ''econnrefused'' \<or>
           str_includes normalized ''econnreset'' \<or>
           str_includes normalized ''network'' \<or>
           str_includes normalized ''fetch'' \<or>
           str_includes normalized ''internal network failure'' \<or>
           str_includes normalized ''unexpected system error'' \<or>
           str_includes normalized ''http 500'' \<or>
           str_includes normalized ''http 502'' \<or>
           str_includes normalized ''http 503'' \<or>
           str_includes normalized ''http 504'' \<or>
           str_includes normalized ''rate limit'' \<or>
           str_includes normalized ''429'' \<or>
           str_includes normalized ''-500''))"

text \<open>The error \<open>callTool\<close> raises once it stops retrying (the tail of its \<open>catch\<close>).\<close>

definition classifyCallError :: "config \<Rightarrow> thrown \<Rightarrow> error" where
  "classifyCallError cfg error =
     (if isError error \<and>
         (str_includes (message error) ''401'' \<or> str_includes (message error) ''403'')
      then AuthError (''Authentication failed: '' @ message error)
      else if isError error \<and>
         (str_includes (message error) ''timeout'' \<or> str_includes (message error) ''ETIMEDOUT'')
      then TimeoutError (DEFAULT_TIMEOUT_MS cfg)
      else if isError error \<and>
         (str_includes (message error) ''ECONNREFUSED'' \<or> str_includes (message error) ''network'')
      then NetworkError (message error)
      else if isError error \<and>
         (str_includes (message error) ''-500''
          \<or> str_includes (message error) ''Unexpected system error'')
      then ApiError (message error) (- 500)
      else ApiError (''MCP tool call failed: '' @ message error) 500)"

text \<open>The error \<open>_doInit\<close> raises (its \<open>catch\<close>).\<close>

definition classifyInitError :: "config \<Rightarrow> thrown \<Rightarrow> error" where
  "classifyInitError cfg error =
     (case cls error of
        IsApiError code \<Rightarrow> ApiError (message error) code
      | _ \<Rightarrow>
        if isError error \<and>
           (str_includes (message error) ''401'' \<or> str_includes (message error) ''403''
            \<or> str_includes (message error) ''auth'')
        then AuthError (''Authentication failed: '' @ message error)
        else if isError error \<and>
           (str_includes (message error) ''timeout'' \<or> str_includes (message error) ''ETIMEDOUT'')
        then TimeoutError (DEFAULT_TIMEOUT_MS cfg)
        else if isError error \<and>
           (str_includes (message error) ''ECONNREFUSED'' \<or> str_includes (message error) ''network''
            \<or> str_includes (message error) ''fetch'')
        then NetworkError (message error)
        else ApiError (''MCP initialization failed: '' @ message error) 500)"

section \<open>Values and capability descriptors\<close>

text \<open>
  A nested value read as a tree: scalars, strings, arrays, and objects as the list of their
  own properties in enumeration order. Numbers are integers.
\<close>

datatype prim = PUndefined | PNull | PBool bool | PNum int

datatype jvalue =
    TPrim prim
  | TStr string
  | TArr "jvalue list"
  | TObj "(string \<times> jvalue) list"

record tool =
  name :: string
  inputs :: jvalue
  outputs :: jvalue

section \<open>The transport, the file system and the clock\<close>

text \<open>
  The UTCP client, the file system, \<open>Date.now\<close>, \<open>Math.random\<close> and \<open>JSON.parse\<close> are
  outside the program. A \<open>host\<close> fixes what each of them answers: the answer to the
  \<open>k\<close>-th call of an operation is the function's value at \<open>k\<close>, and the state counts
  the calls made so far.
\<close>

datatype register_result =
    RegisterOk
  | RegisterFailed "string list"
  | RegisterThrows thrown

text \<open>
  The underlying \<open>client.close()\<close> settles after some milliseconds, resolving or
  rejecting, or never settles.
\<close>

datatype close_behaviour =
    CloseResolves nat
  | CloseRejects nat thrown
  | CloseHangs

record host =
  create_result :: "nat \<Rightarrow> thrown option"
  registerManual_result :: "nat \<Rightarrow> register_result"
  callTool_result :: "nat \<Rightarrow> string \<Rightarrow> jvalue \<Rightarrow> thrown + jvalue"
  getTools_result :: "nat \<Rightarrow> thrown + tool list"
  close_result :: "nat \<Rightarrow> close_behaviour"
  Math_random :: "nat \<Rightarrow> real"
  Date_now :: "nat \<Rightarrow> int"
  mkdir_ok :: "nat \<Rightarrow> bool"
  writeFile_ok :: "nat \<Rightarrow> bool"
  JSON_parse :: "string \<Rightarrow> jvalue option"

text \<open>
  The cache file as \<open>readFile\<close> and \<open>JSON.parse\<close> see it: unreadable, not JSON, a falsy
  JSON value, or an object with the three optional fields the client reads. The client's
  configuration fixes one fingerprint, hence one file.
\<close>

record cache_data =
  version :: "int option"
  timestamp :: "int option"
  tools :: "tool list option"

datatype cache_file =
    Unreadable
  | NotJson
  | Falsy
  | Entry cache_data

text \<open>
  The fields of \<open>ZaiMcpClient\<close>, then the world: the calls made so far, the sleeps, the
  \<open>refresh\<close> argument of each \<open>listTools\<close> call, and the cache file. \<open>client\<close> holds the
  number of the \<open>create\<close> call that made the session. \<open>initPromise\<close> holds the value the
  stored promise settles with.
\<close>

record state =
  client :: "nat option"
  initPromise :: "(error + unit) option"
  isInitialized :: bool
  nCreate :: nat
  nRegister :: nat
  nCallTool :: nat
  nGetTools :: nat
  nClose :: nat
  nRandom :: nat
  nNow :: nat
  nWrite :: nat
  sleeps :: "int option list"
  listToolsCalls :: "bool list"
  cacheFile :: cache_file

definition newClient :: "cache_file \<Rightarrow> state" where
  "newClient f =
     \<lparr> client = None, initPromise = None, isInitialized = False,
       nCreate = 0, nRegister = 0, nCallTool = 0, nGetTools = 0, nClose = 0,
       nRandom = 0, nNow = 0, nWrite = 0, sleeps = [], listToolsCalls = [],
       cacheFile = f \<rparr>"

section \<open>Session lifecycle\<close>

text \<open>\<open>Array.prototype.join\<close> on strings.\<close>

fun join :: "string \<Rightarrow> string list \<Rightarrow> string" where
  "join sep [] = []"
| "join sep [x] = x"
| "join sep (x # y # ys) = x @ sep @ join sep (y # ys)"

text \<open>
  \<open>ZaiMcpClient._doInit\<close>. A failure clears \<open>initPromise\<close> and raises the classified
  error; a session that was created before the registration failed stays in \<open>client\<close>.
\<close>

definition doInit :: "host \<Rightarrow> config \<Rightarrow> state \<Rightarrow> (error + unit) \<times> state" where
  "doInit h cfg s =
     (case create_result h (nCreate s) of
        Some e \<Rightarrow>
          (Inl (classifyInitError cfg e), s\<lparr>nCreate := Suc (nCreate s), initPromise := None\<rparr>)
      | None \<Rightarrow>
          let s1 = s\<lparr>nCreate := Suc (nCreate s), client := Some (nCreate s)\<rparr>;
              s2 = s1\<lparr>nRegister := Suc (nRegister s1)\<rparr>
          in (case registerManual_result h (nRegister s1) of
                RegisterThrows e \<Rightarrow>
                  (Inl (classifyInitError cfg e), s2\<lparr>initPromise := None\<rparr>)
              | RegisterFailed errors \<Rightarrow>
                  (Inl (classifyInitError cfg
                     (Thrown (IsApiError 500)
                        (''Failed to register MCP servers: '' @ join '', '' errors))),
                   s2\<lparr>initPromise := None\<rparr>)
              | RegisterOk \<Rightarrow> (Inr (), s2\<lparr>isInitialized := True\<rparr>)))"

text \<open>
  \<open>ZaiMcpClient.init\<close>. Awaiting a stored promise gives the value it settles with; a
  started \<open>_doInit\<close> is stored, and stays stored when it succeeds.
\<close>

definition init :: "host \<Rightarrow> config \<Rightarrow> state \<Rightarrow> (error + unit) \<times> state" where
  "init h cfg s =
     (if isInitialized s then (Inr (), s)
      else (case initPromise s of
              Some r \<Rightarrow> (r, s)
            | None \<Rightarrow>
                (case doInit h cfg s of
                   (Inr u, s') \<Rightarrow> (Inr u, s'\<lparr>initPromise := Some (Inr u)\<rparr>)
                 | (Inl e, s') \<Rightarrow> (Inl e, s'))))"

text \<open>
  \<open>Promise.race([client.close(), timer])\<close>: the outcome and the milliseconds it takes.
  The timer resolves at \<open>timeoutMs\<close>; the session's own close wins when it settles no
  later than that.
\<close>

fun race :: "close_behaviour \<Rightarrow> nat \<Rightarrow> (thrown + unit) \<times> nat" where
  "race (CloseResolves d) timeoutMs = (Inr (), min d timeoutMs)"
| "race (CloseRejects d e) timeoutMs =
     (if d \<le> timeoutMs then (Inl e, d) else (Inr (), timeoutMs))"
| "race CloseHangs timeoutMs = (Inr (), timeoutMs)"

text \<open>
  \<open>ZaiMcpClient.close\<close>: the outcome, the milliseconds until it settles, and the state.
  The three fields are reset after the \<open>await\<close>, so not when the race rejects.
\<close>

definition close :: "host \<Rightarrow> nat \<Rightarrow> state \<Rightarrow> (thrown + unit) \<times> nat \<times> state" where
  "close h timeoutMs s =
     (case client s of
        None \<Rightarrow> (Inr (), 0, s)
      | Some c \<Rightarrow>
          let s1 = s\<lparr>nClose := Suc (nClose s)\<rparr> in
          (case race (close_result h (nClose s)) timeoutMs of
             (Inl e, d) \<Rightarrow> (Inl e, d, s1)
           | (Inr u, d) \<Rightarrow>
               (Inr u, d, s1\<lparr>client := None, isInitialized := False, initPromise := None\<rparr>)))"

section \<open>Retrying invoker\<close>

text \<open>
  The delay before the retry that follows the failed attempt number \<open>attempt\<close>:
  \<open>Math.min(MAX, BASE * Math.pow(2, attempt - 1)) + Math.floor(Math.random() * JITTER)\<close>,
  NaN when one of the three constants is.
\<close>

definition backoff :: "config \<Rightarrow> int \<Rightarrow> int option" where
  "backoff cfg attempt =
     (case (DEFAULT_RETRY_MAX_MS cfg, DEFAULT_RETRY_BASE_MS cfg) of
        (Some mx, Some base) \<Rightarrow> Some (min mx (base * 2 ^ nat (attempt - 1)))
      | _ \<Rightarrow> None)"

definition jitter :: "config \<Rightarrow> real \<Rightarrow> int option" where
  "jitter cfg r =
     (case DEFAULT_RETRY_JITTER_MS cfg of
        Some j \<Rightarrow> Some \<lfloor>r * of_int j\<rfloor>
      | None \<Rightarrow> None)"

definition retryDelay :: "config \<Rightarrow> int \<Rightarrow> real \<Rightarrow> int option" where
  "retryDelay cfg attempt r =
     (case (backoff cfg attempt, jitter cfg r) of
        (Some b, Some j) \<Rightarrow> Some (b + j)
      | _ \<Rightarrow> None)"

text \<open>What \<open>callTool\<close> returns for a raw result: a string that parses is parsed.\<close>

definition parseResult :: "host \<Rightarrow> jvalue \<Rightarrow> jvalue" where
  "parseResult h result =
     (case result of
        TStr str \<Rightarrow> (case JSON_parse h str of Some v \<Rightarrow> v | None \<Rightarrow> result)
      | _ \<Rightarrow> result)"

text \<open>
  The loop of \<open>ZaiMcpClient.callTool\<close>, entered with the number of failed attempts so
  far. \<open>init\<close> runs outside the \<open>try\<close>: its error leaves the loop at once. The
  counter is an integer here and a number in the code, where it counts exactly up to
  \<open>2 ^ 53\<close>.
\<close>

function callToolLoop ::
  "host \<Rightarrow> config \<Rightarrow> int \<Rightarrow> string \<Rightarrow> jvalue \<Rightarrow> int \<Rightarrow> state \<Rightarrow> (error + jvalue) \<times> state"
where
  "callToolLoop h cfg maxRetries toolName args attempt s =
     (case init h cfg s of
        (Inl e, s1) \<Rightarrow> (Inl e, s1)
      | (Inr u, s1) \<Rightarrow>
          (case client s1 of
             None \<Rightarrow> (Inl (ApiError ''MCP client not initialized'' 500), s1)
           | Some c \<Rightarrow>
               let s2 = s1\<lparr>nCallTool := Suc (nCallTool s1)\<rparr> in
               (case callTool_result h (nCallTool s1) toolName args of
                  Inr result \<Rightarrow> (Inr (parseResult h result), s2)
                | Inl error \<Rightarrow>
                    if attempt + 1 \<le> maxRetries \<and> isRetriableError error then
                      let s3 = snd (snd (close h 2000 s2));
                          s4 = s3\<lparr>nRandom := Suc (nRandom s3),
                                  sleeps := sleeps s3 @
                                    [retryDelay cfg (attempt + 1) (Math_random h (nRandom s3))]\<rparr>
                      in callToolLoop h cfg maxRetries toolName args (attempt + 1) s4
                    else (Inl (classifyCallError cfg error), s2))))"
  by pat_completeness auto
termination
  by (relation "measure (\<lambda>(h, cfg, maxRetries, toolName, args, attempt, s). nat (maxRetries - attempt))")
     auto

text \<open>\<open>ZaiMcpClient.callTool\<close>.\<close>

definition callTool ::
  "host \<Rightarrow> config \<Rightarrow> env \<Rightarrow> string \<Rightarrow> jvalue \<Rightarrow> state \<Rightarrow> (error + jvalue) \<times> state"
where
  "callTool h cfg e toolName args s =
     callToolLoop h cfg (getRetryCount e toolName) toolName args 0 s"

section \<open>Secret redactor\<close>

definition REDACT_KEYS :: "string set" where
  "REDACT_KEYS = set [''authorization'', ''Authorization'', ''api_key'', ''apiKey'',
     ''access_token'', ''token'', ''Z_AI_API_KEY'', ''ZAI_API_KEY'']"

definition REDACTED :: string where
  "REDACTED = ''[REDACTED]''"

text \<open>
  \<open>value.replaceAll(pat, rep)\<close> for a replacement without \<open>$\<close>: the occurrences of
  \<open>pat\<close> are found from left to right, each search resuming after the previous
  occurrence. (An empty \<open>pat\<close> matches before every character and at the end.)
\<close>

function replaceAll :: "string \<Rightarrow> string \<Rightarrow> string \<Rightarrow> string" where
  "replaceAll [] pat rep = (if pat = [] then rep else [])"
| "replaceAll (c # cs) pat rep =
     (if pat = [] then rep @ c # replaceAll cs pat rep
      else if prefix pat (c # cs) then rep @ replaceAll (drop (length pat) (c # cs)) pat rep
      else c # replaceAll cs pat rep)"
  by pat_completeness auto
termination
  by (relation "measure (\<lambda>(s, pat, rep). length s)") auto

text \<open>
  The length of the match of \<open>/Bearer\s+\S+/\<close> at the start of a string, if there is
  one: the word, the longest run of white space, the longest run of other characters.
\<close>

definition bearerMatch :: "string \<Rightarrow> nat option" where
  "bearerMatch s =
     (if prefix ''Bearer'' s then
        let r = drop 6 s;
            ws = takeWhile isWhiteSpace r;
            tok = takeWhile (\<lambda>c. \<not> isWhiteSpace c) (dropWhile isWhiteSpace r)
        in if ws \<noteq> [] \<and> tok \<noteq> [] then Some (6 + length ws + length tok) else None
      else None)"

text \<open>\<open>/^Bearer\s+\S+/.test(s)\<close>.\<close>

definition testBearer :: "string \<Rightarrow> bool" where
  "testBearer s = (bearerMatch s \<noteq> None)"

text \<open>\<open>s.replace(/Bearer\s+\S+/, 'Bearer [REDACTED]')\<close>: the leftmost match is replaced.\<close>

fun replaceBearer :: "string \<Rightarrow> string" where
  "replaceBearer [] = []"
| "replaceBearer (c # cs) =
     (case bearerMatch (c # cs) of
        Some n \<Rightarrow> ''Bearer '' @ REDACTED @ drop n (c # cs)
      | None \<Rightarrow> c # replaceBearer cs)"

text \<open>
  \<open>redactString\<close>, first statement: the credential is replaced wherever it occurs. An
  absent or empty \<open>apiKey\<close> is falsy.
\<close>

definition credentialPass :: "string \<Rightarrow> string option \<Rightarrow> string" where
  "credentialPass value apiKey =
     (case apiKey of
        Some k \<Rightarrow> if k \<noteq> [] \<and> str_includes value k then replaceAll value k REDACTED else value
      | None \<Rightarrow> value)"

text \<open>\<open>redactString\<close>.\<close>

definition redactString :: "string \<Rightarrow> string option \<Rightarrow> string" where
  "redactString value apiKey =
     (let result = credentialPass value apiKey
      in if testBearer result then replaceBearer result else result)"

subsection \<open>Values in a store\<close>

text \<open>
  Arrays and objects have identity: a value is a scalar, a string or a reference into a
  store of cells, and a new cell takes the next free address. \<open>output[key] = v\<close> on an
  object made by \<open>{}\<close> adds or overwrites an own property, except for the key
  \<open>__proto__\<close>, which reaches the setter of \<open>Object.prototype\<close> and adds none.
\<close>

datatype val = VPrim prim | VStr string | VRef nat

datatype cell = CArr "val list" | CObj "(string \<times> val) list"

type_synonym heap = "cell list"




subsection \<open>Values as trees\<close>

text \<open>
  \<open>redactSecrets\<close> read on trees, for values whose identity does not matter (the clone
  that \<open>redactTool\<close> makes with \<open>JSON.parse(JSON.stringify(tool))\<close>).
\<close>

fun redactTree :: "string option \<Rightarrow> jvalue \<Rightarrow> jvalue" where
  "redactTree apiKey (TStr s) = TStr (redactString s apiKey)"
| "redactTree apiKey (TArr items) = TArr (map (redactTree apiKey) items)"
| "redactTree apiKey (TObj entries) =
     TObj (map (\<lambda>e. (fst e, if fst e \<in> REDACT_KEYS then TStr REDACTED
                               else redactTree apiKey (snd e)))
            (filter (\<lambda>e. fst e \<noteq> ''__proto__'') entries))"
| "redactTree apiKey (TPrim p) = TPrim p"

text \<open>
  \<open>JSON.parse(JSON.stringify(v))\<close> on a tree: a property whose value is \<open>undefined\<close> is
  left out, an \<open>undefined\<close> element of an array becomes \<open>null\<close>.
\<close>

fun jsonClone :: "jvalue \<Rightarrow> jvalue" where
  "jsonClone (TArr items) =
     TArr (map (\<lambda>item. if item = TPrim PUndefined then TPrim PNull else jsonClone item) items)"
| "jsonClone (TObj entries) =
     TObj (map (\<lambda>e. (fst e, jsonClone (snd e)))
            (filter (\<lambda>e. snd e \<noteq> TPrim PUndefined) entries))"
| "jsonClone (TStr s) = TStr s"
| "jsonClone (TPrim p) = TPrim p"

text \<open>
  \<open>redactTool\<close>: the clone of the descriptor is redacted as the object of its fields, none
  of which has a sensitive name; the credential is read from the environment.
\<close>

definition redactTool :: "env \<Rightarrow> tool \<Rightarrow> tool" where
  "redactTool e t =
     (let apiKey = js_or (e ''Z_AI_API_KEY'') (e ''ZAI_API_KEY'')
      in \<lparr> name = redactString (name t) apiKey,
           inputs = redactTree apiKey (jsonClone (inputs t)),
           outputs = redactTree apiKey (jsonClone (outputs t)) \<rparr>)"

text \<open>
  The tree a value of the store unfolds to, all of whose cells lie at addresses from
  \<open>n\<close> on. An object has distinct keys. Only a finite, acyclic value unfolds to a tree.
\<close>

inductive repr_from :: "nat \<Rightarrow> heap \<Rightarrow> val \<Rightarrow> jvalue \<Rightarrow> bool" for n :: nat and h :: heap where
  repr_prim: "repr_from n h (VPrim p) (TPrim p)"
| repr_str: "repr_from n h (VStr s) (TStr s)"
| repr_arr: "n \<le> a \<Longrightarrow> a < length h \<Longrightarrow> h ! a = CArr vs \<Longrightarrow> list_all2 (repr_from n h) vs ts
     \<Longrightarrow> repr_from n h (VRef a) (TArr ts)"
| repr_obj: "n \<le> a \<Longrightarrow> a < length h \<Longrightarrow> h ! a = CObj es \<Longrightarrow> distinct (map fst es)
     \<Longrightarrow> map fst es = map fst tes
     \<Longrightarrow> list_all2 (repr_from n h) (map snd es) (map snd tes)
     \<Longrightarrow> repr_from n h (VRef a) (TObj tes)"



subsection \<open>What redaction promises\<close>




section \<open>Tool catalog cache\<close>

text \<open>
  \<open>ZaiMcpClient.readToolsCache\<close>, given the cache file and the value of \<open>Date.now()\<close>.
  A comparison with NaN is false.
\<close>

definition readToolsCache :: "config \<Rightarrow> bool \<Rightarrow> cache_file \<Rightarrow> int \<Rightarrow> tool list option" where
  "readToolsCache cfg refresh file now =
     (if \<not> TOOL_CACHE_ENABLED cfg \<or> refresh then None
      else if (case DEFAULT_TOOL_CACHE_TTL_MS cfg of Some ttl \<Rightarrow> ttl \<le> 0 | None \<Rightarrow> False) then None
      else (case file of
              Unreadable \<Rightarrow> None
            | NotJson \<Rightarrow> None
            | Falsy \<Rightarrow> None
            | Entry data \<Rightarrow>
                if version data \<noteq> Some TOOL_CACHE_VERSION \<or> tools data = None then None
                else
                  let age = now - (case timestamp data of Some t \<Rightarrow> t | None \<Rightarrow> 0) in
                  if (case DEFAULT_TOOL_CACHE_TTL_MS cfg of Some ttl \<Rightarrow> age > ttl | None \<Rightarrow> False)
                  then None
                  else tools data))"

text \<open>Whether \<open>readToolsCache\<close> gets as far as its call of \<open>Date.now()\<close>.\<close>

definition readsClock :: "config \<Rightarrow> bool \<Rightarrow> cache_file \<Rightarrow> bool" where
  "readsClock cfg refresh file =
     (TOOL_CACHE_ENABLED cfg \<and> \<not> refresh
      \<and> \<not> (case DEFAULT_TOOL_CACHE_TTL_MS cfg of Some ttl \<Rightarrow> ttl \<le> 0 | None \<Rightarrow> False)
      \<and> (case file of
            Entry data \<Rightarrow> version data = Some TOOL_CACHE_VERSION \<and> tools data \<noteq> None
          | _ \<Rightarrow> False))"

text \<open>\<open>ZaiMcpClient.writeToolsCache\<close>: best effort, a failed \<open>mkdir\<close> or \<open>writeFile\<close> is ignored.\<close>

definition writeToolsCache :: "host \<Rightarrow> config \<Rightarrow> env \<Rightarrow> tool list \<Rightarrow> state \<Rightarrow> state" where
  "writeToolsCache h cfg e ts s =
     (if \<not> TOOL_CACHE_ENABLED cfg
         \<or> (case DEFAULT_TOOL_CACHE_TTL_MS cfg of Some ttl \<Rightarrow> ttl \<le> 0 | None \<Rightarrow> False)
      then s
      else
        let s1 = s\<lparr>nWrite := Suc (nWrite s)\<rparr> in
        if \<not> mkdir_ok h (nWrite s) then s1
        else
          let payload = \<lparr> version = Some TOOL_CACHE_VERSION,
                          timestamp = Some (Date_now h (nNow s1)),
                          tools = Some (map (redactTool e) ts) \<rparr>;
              s2 = s1\<lparr>nNow := Suc (nNow s1)\<rparr>
          in if writeFile_ok h (nWrite s) then s2\<lparr>cacheFile := Entry payload\<rparr> else s2)"

section \<open>Discovery and name resolution\<close>

text \<open>\<open>ZaiMcpClient.listTools\<close>. An exception of \<open>client.getTools()\<close> passes through.\<close>

definition listTools ::
  "host \<Rightarrow> config \<Rightarrow> env \<Rightarrow> bool \<Rightarrow> state \<Rightarrow> (exn + tool list) \<times> state"
where
  "listTools h cfg e refresh s =
     (let s0 = s\<lparr>listToolsCalls := listToolsCalls s @ [refresh]\<rparr>;
          s1 = (if readsClock cfg refresh (cacheFile s) then s0\<lparr>nNow := Suc (nNow s0)\<rparr> else s0)
      in case readToolsCache cfg refresh (cacheFile s) (Date_now h (nNow s)) of
           Some cached \<Rightarrow> (Inr cached, s1)
         | None \<Rightarrow>
             (case init h cfg s1 of
                (Inl err, s2) \<Rightarrow> (Inl (Raised err), s2)
              | (Inr u, s2) \<Rightarrow>
                  (case client s2 of
                     None \<Rightarrow> (Inl (Raised (ApiError ''MCP client not initialized'' 500)), s2)
                   | Some c \<Rightarrow>
                       let s3 = s2\<lparr>nGetTools := Suc (nGetTools s2)\<rparr> in
                       (case getTools_result h (nGetTools s2) of
                          Inl err \<Rightarrow> (Inl (Propagated err), s3)
                        | Inr ts \<Rightarrow> (Inr ts, writeToolsCache h cfg e ts s3)))))"

text \<open>\<open>ZaiMcpClient.getTool\<close>: exact name, then suffix, on the catalog and once more on a
  refreshed one.\<close>

definition findTool :: "tool list \<Rightarrow> string \<Rightarrow> tool option" where
  "findTool ts toolName =
     (case find (\<lambda>t. name t = toolName) ts of
        Some exact \<Rightarrow> Some exact
      | None \<Rightarrow> find (\<lambda>t. endsWith (name t) (''.'' @ toolName)) ts)"

definition getTool ::
  "host \<Rightarrow> config \<Rightarrow> env \<Rightarrow> string \<Rightarrow> state \<Rightarrow> (exn + tool option) \<times> state"
where
  "getTool h cfg e toolName s =
     (case listTools h cfg e False s of
        (Inl err, s1) \<Rightarrow> (Inl err, s1)
      | (Inr ts, s1) \<Rightarrow>
          (case findTool ts toolName of
             Some t \<Rightarrow> (Inr (Some t), s1)
           | None \<Rightarrow>
               (case listTools h cfg e True s1 of
                  (Inl err, s2) \<Rightarrow> (Inl err, s2)
                | (Inr ts2, s2) \<Rightarrow> (Inr (findTool ts2 toolName), s2))))"

text \<open>\<open>ZaiMcpClient.resolveToolName\<close>.\<close>

definition resolveToolName ::
  "host \<Rightarrow> config \<Rightarrow> env \<Rightarrow> string \<Rightarrow> state \<Rightarrow> (exn + string) \<times> state"
where
  "resolveToolName h cfg e toolName s =
     (case getTool h cfg e toolName s of
        (Inl err, s1) \<Rightarrow> (Inl err, s1)
      | (Inr None, s1) \<Rightarrow> (Inl (Raised (ApiError (''Unknown tool: '' @ toolName) 400)), s1)
      | (Inr (Some t), s1) \<Rightarrow> (Inr (name t), s1))"

section \<open>Sessions and hosts used in the statements\<close>

text \<open>
  A state that a sequence of calls can leave behind: an initialised client has a
  session, and no \<open>_doInit\<close> is in flight.
\<close>

definition wf_state :: "state \<Rightarrow> bool" where
  "wf_state s = ((isInitialized s \<longrightarrow> client s \<noteq> None) \<and> (\<not> isInitialized s \<longrightarrow> initPromise s = None))"


definition session_fields :: "state \<Rightarrow> nat option \<times> (error + unit) option \<times> bool" where
  "session_fields s = (client s, initPromise s, isInitialized s)"

text \<open>
  A host on which every call succeeds at once, with an empty catalog, and variants of it:
  one whose tool calls fail with a 503, one whose tool calls fail with a 401, one whose
  first session close rejects after 10 ms, one whose session close never settles, one
  whose catalog holds one tool, one whose clock shows 1000, and one whose tool calls fail
  with a 503 and on which only the first session can be created.
\<close>

definition sample_tool :: tool where
  "sample_tool = \<lparr> name = ''zai.vision.analyze_image'', inputs = TObj [], outputs = TObj [] \<rparr>"

definition calm_host :: host where
  "calm_host =
     \<lparr> create_result = (\<lambda>k. None),
       registerManual_result = (\<lambda>k. RegisterOk),
       callTool_result = (\<lambda>k toolName args. Inr (TStr ''ok'')),
       getTools_result = (\<lambda>k. Inr []),
       close_result = (\<lambda>k. CloseResolves 0),
       Math_random = (\<lambda>k. 0),
       Date_now = (\<lambda>k. 0),
       mkdir_ok = (\<lambda>k. True),
       writeFile_ok = (\<lambda>k. True),
       JSON_parse = (\<lambda>s. None) \<rparr>"


definition unauthorized_host :: host where
  "unauthorized_host =
     calm_host\<lparr>callTool_result :=
       (\<lambda>k toolName args. Inl (Thrown IsOtherError ''HTTP 401 Unauthorized''))\<rparr>"

definition rejecting_host :: host where
  "rejecting_host =
     calm_host\<lparr>close_result :=
       (\<lambda>k. if k = 0 then CloseRejects 10 (Thrown IsOtherError ''socket hang up'')
            else CloseResolves 5)\<rparr>"

definition hanging_host :: host where
  "hanging_host = calm_host\<lparr>close_result := (\<lambda>k. CloseHangs)\<rparr>"


definition catalog_host :: host where
  "catalog_host = calm_host\<lparr>getTools_result := (\<lambda>k. Inr [sample_tool])\<rparr>"

definition clock_host :: host where
  "clock_host = calm_host\<lparr>Date_now := (\<lambda>k. 1000)\<rparr>"

text \<open>A client after a successful \<open>init\<close>.\<close>

definition live_state :: state where
  "live_state = snd (init calm_host default_constants (newClient Unreadable))"





section \<open>Evaluation lemmas\<close>

declare callToolLoop.simps [simp del]
declare excessBits.simps [simp del]

lemmas lower_eval = toLowerCase_def lowerChar_def char_of_def bit_0

lemma excessBits_small: "n < 2 ^ 53 \<Longrightarrow> excessBits n = 0"
  by (subst excessBits.simps) simp

lemma toDouble_small: "n < 2 ^ 53 \<Longrightarrow> toDouble n = Some n"
  by (simp add: toDouble_def excessBits_small)

lemma excessBits_range:
  "2 ^ 53 \<le> n \<Longrightarrow> 2 ^ 52 \<le> n div 2 ^ excessBits n \<and> n div 2 ^ excessBits n < 2 ^ 53"
proof (induction n rule: excessBits.induct)
  case (1 n)
  from 1(2) have e: "excessBits n = Suc (excessBits (n div 2))"
    by (subst excessBits.simps) simp
  have d: "n div 2 ^ Suc (excessBits (n div 2)) = (n div 2) div 2 ^ excessBits (n div 2)"
    by (simp add: div_mult2_eq)
  show ?case
  proof (cases "n div 2 < 2 ^ 53")
    case True
    then have "excessBits (n div 2) = 0" by (rule excessBits_small)
    with 1(2) True show ?thesis unfolding e d by simp
  next
    case False
    with 1 show ?thesis unfolding e d by simp
  qed
qed

lemma toDouble_overflow:
  assumes "2 ^ 1024 \<le> n"
  shows "toDouble n = None"
proof -
  define B :: nat where "B = 2 ^ 1024"
  let ?e = "excessBits n"
  let ?q = "n div 2 ^ ?e"
  have "(2::nat) ^ 53 \<le> 2 ^ 1024" by (rule power_increasing) simp_all
  from this assms have n53: "2 ^ 53 \<le> n" by (rule order_trans)
  from excessBits_range [OF n53] have q: "2 ^ 52 \<le> ?q" by (rule conjunct1)
  have ge: "B \<le> ?q * 2 ^ ?e"
  proof (cases "?e \<le> 1024")
    case True
    then have s: "B = 2 ^ (1024 - ?e) * 2 ^ ?e"
      unfolding B_def power_add [symmetric] by simp
    from assms have "B \<le> n" unfolding B_def .
    then have "B div 2 ^ ?e \<le> ?q" by (rule div_le_mono)
    then have "2 ^ (1024 - ?e) \<le> ?q" unfolding s by simp
    then show ?thesis unfolding s by simp
  next
    case False
    then have "52 + ?e \<ge> 1024" by simp
    then have "(2::nat) ^ 1024 \<le> 2 ^ (52 + ?e)" by (intro power_increasing) simp_all
    then have "B \<le> 2 ^ 52 * 2 ^ ?e" unfolding B_def power_add .
    also have "\<dots> \<le> ?q * 2 ^ ?e" using q by (rule mult_le_mono1)
    finally show ?thesis .
  qed
  have up: "\<not> q' * 2 ^ ?e < B" if "?q \<le> q'" for q'
  proof -
    from that have "?q * 2 ^ ?e \<le> q' * 2 ^ ?e" by (rule mult_le_mono1)
    from ge this have "B \<le> q' * 2 ^ ?e" by (rule order_trans)
    then show ?thesis by (simp only: not_less)
  qed
  have a: "\<not> ?q * 2 ^ ?e < B" by (rule up) (rule order_refl)
  have b: "\<not> (?q + 1) * 2 ^ ?e < B" by (rule up) (rule le_add1)
  show ?thesis
    unfolding toDouble_def Let_def B_def [symmetric]
    using a b by (auto split: if_splits)
qed

lemma excessBits_example: "excessBits 9007199254740993 = 1"
  by (subst excessBits.simps, subst excessBits.simps) simp

lemma toDouble_example: "toDouble 9007199254740993 = Some 9007199254740992"
  by (simp add: toDouble_def excessBits_example)

lemma parseInt_defaults:
  "parseInt ''300000'' = Finite 300000" "parseInt ''500'' = Finite 500"
  "parseInt ''8000'' = Finite 8000" "parseInt ''250'' = Finite 250"
  "parseInt ''86400000'' = Finite 86400000" "parseInt ''0'' = Finite 0"
  "parseInt ''5'' = Finite 5"
  by (simp_all add: parseInt_def isWhiteSpace_def isDigit_def digitsVal_def digitVal_def
        toDouble_small)

lemma loadConstants_empty: "loadConstants Map.empty = Some default_constants"
  by (simp add: loadConstants_def asConstant_def default_constants_def env_or_def js_or_def
        parseInt_defaults lower_eval)

lemma live_state_eq: "live_state = (newClient Unreadable)\<lparr>client := Some 0, initPromise := Some (Inr ()), isInitialized := True, nCreate := 1, nRegister := 1\<rparr>"
  by (simp add: init_def doInit_def calm_host_def newClient_def live_state_def)

lemma wf_live: "wf_state live_state"
  by (simp add: live_state_eq wf_state_def newClient_def)

lemma digit_not_space: "isDigit c \<Longrightarrow> \<not> isWhiteSpace c \<and> c \<noteq> CHR ''-'' \<and> c \<noteq> CHR ''+''"
  by (auto simp: isDigit_def isWhiteSpace_def)

lemma sign_not_space: "\<not> isWhiteSpace CHR ''-''" "\<not> isWhiteSpace CHR ''+''"
  "\<not> isDigit CHR ''-''" "\<not> isDigit CHR ''+''"
  by (simp_all add: isWhiteSpace_def isDigit_def)

lemma takeWhile_digits:
  assumes "list_all isDigit ds" and "rest = [] \<or> \<not> isDigit (hd rest)"
  shows "takeWhile isDigit (ds @ rest) = ds"
  using assms by (cases rest) (auto simp: list_all_iff takeWhile_append)

text \<open>
  \<open>parseInt\<close> on white space, an optional sign, a numeral and a rest that does not go on
  with a digit.
\<close>

lemma parseInt_numeral:
  assumes ws: "list_all isWhiteSpace ws" and sg: "sg = [] \<or> sg = ''+'' \<or> sg = ''-''"
    and ds: "ds \<noteq> []" "list_all isDigit ds" and rest: "rest = [] \<or> \<not> isDigit (hd rest)"
  shows "parseInt (ws @ sg @ ds @ rest)
     = (case toDouble (digitsVal ds) of
          Some m \<Rightarrow> Finite (if sg = ''-'' then - int m else int m)
        | None \<Rightarrow> if sg = ''-'' then MinusInfinity else PlusInfinity)"
proof -
  obtain d ds' where d: "ds = d # ds'" "isDigit d" using ds by (cases ds) auto
  have tw: "takeWhile isDigit (ds @ rest) = ds" using ds(2) rest by (rule takeWhile_digits)
  have dw: "dropWhile isWhiteSpace (ws @ sg @ ds @ rest) = sg @ ds @ rest"
    using ws sg d digit_not_space [OF d(2)]
    by (auto simp: dropWhile_append list_all_iff sign_not_space)
  from sg show ?thesis
  proof (elim disjE)
    assume "sg = []"
    with dw tw d digit_not_space [OF d(2)] show ?thesis
      by (simp add: parseInt_def Let_def del: takeWhile_append2) (simp add: d(1) [symmetric] tw split: option.splits)
  next
    assume "sg = ''+''"
    with dw tw d show ?thesis
      by (simp add: parseInt_def Let_def) (simp add: d(1) [symmetric] tw split: option.splits)
  next
    assume "sg = ''-''"
    with dw tw d show ?thesis
      by (simp add: parseInt_def Let_def) (simp add: d(1) [symmetric] tw split: option.splits)
  qed
qed

text \<open>\<open>parseInt\<close> on white space and an optional sign that no digit follows.\<close>

lemma parseInt_NaN:
  assumes ws: "list_all isWhiteSpace ws" and sg: "sg = [] \<or> sg = ''+'' \<or> sg = ''-''"
    and rest: "rest = [] \<or> (\<not> isDigit (hd rest)
        \<and> (sg = [] \<longrightarrow> \<not> isWhiteSpace (hd rest) \<and> hd rest \<noteq> CHR ''+'' \<and> hd rest \<noteq> CHR ''-''))"
  shows "parseInt (ws @ sg @ rest) = NaN"
proof -
  have dw: "dropWhile isWhiteSpace (ws @ sg @ rest) = dropWhile isWhiteSpace (sg @ rest)"
    using ws by (simp add: dropWhile_append list_all_iff)
  show ?thesis
  proof (cases rest)
    case Nil
    with sg dw show ?thesis
      by (auto simp: parseInt_def Let_def sign_not_space)
  next
    case (Cons c cs)
    with rest have c: "\<not> isDigit c" "sg = [] \<longrightarrow> \<not> isWhiteSpace c \<and> c \<noteq> CHR ''+'' \<and> c \<noteq> CHR ''-''"
      by simp_all
    with sg dw Cons show ?thesis
      by (auto simp: parseInt_def Let_def sign_not_space)
  qed
qed

section \<open>Retry budget\<close>

text \<open>
  Claim C9, as stated, fails: a vision override that is set to the empty string is not
  numeric, and the budget is 2, not 0 (an empty variable counts as one that is not set).
\<close>

theorem getRetryCount_budget_counterexample:
  "str_includes ''zai.vision.analyze_image'' ''.vision.''
   \<and> parseInt [] = NaN
   \<and> getRetryCount [''ZAI_MCP_VISION_RETRY_COUNT'' \<mapsto> []] ''zai.vision.analyze_image'' = 2"
  by (simp add: getRetryCount_def js_or_def env_or_def parseInt_def str_includes_def
        sublist_Cons_right)

text \<open>
  Claim C9, amended. A variable that is set to the empty string counts as not set. With
  no global and no override configured, the budget is 2 for a name that contains
  \<open>.vision.\<close> and 0 for any other name. For a vision name, let \<open>raw\<close> be the override:
  the vision variable, or the legacy one when the vision variable is not set.
  \<^item> When \<open>raw\<close> is white space, an optional sign and a decimal numeral, followed by
    nothing or by something other than a digit, the budget is the signed numeral as a
    number: itself below \<open>2 ^ 53\<close>, in general rounded to 53 significant bits, and 0
    if that is infinite, as it is from \<open>2 ^ 1024\<close> on.
  \<^item> When \<open>raw\<close> is white space and an optional sign that no digit follows, the budget
    is 0; so it is for the legacy variable set to the empty string.
\<close>

theorem getRetryCount_budget:
  "((e ''ZAI_MCP_RETRY_COUNT'' = None \<or> e ''ZAI_MCP_RETRY_COUNT'' = Some [])
      \<and> (e ''ZAI_MCP_VISION_RETRY_COUNT'' = None \<or> e ''ZAI_MCP_VISION_RETRY_COUNT'' = Some [])
      \<and> e ''Z_AI_RETRY_COUNT'' = None
      \<longrightarrow> getRetryCount e toolName = (if str_includes toolName ''.vision.'' then 2 else 0))
   \<and> (str_includes toolName ''.vision.''
      \<and> ((e ''ZAI_MCP_VISION_RETRY_COUNT'' = Some raw \<and> raw \<noteq> [])
          \<or> ((e ''ZAI_MCP_VISION_RETRY_COUNT'' = None \<or> e ''ZAI_MCP_VISION_RETRY_COUNT'' = Some [])
              \<and> e ''Z_AI_RETRY_COUNT'' = Some raw))
      \<and> list_all isWhiteSpace ws \<and> (sg = [] \<or> sg = ''+'' \<or> sg = ''-'')
      \<longrightarrow>
        (raw = ws @ sg @ ds @ rest \<and> ds \<noteq> [] \<and> list_all isDigit ds
           \<and> (rest = [] \<or> \<not> isDigit (hd rest))
         \<longrightarrow> getRetryCount e toolName
               = (case toDouble (digitsVal ds) of
                    Some m \<Rightarrow> if sg = ''-'' then - int m else int m
                  | None \<Rightarrow> 0)
             \<and> (digitsVal ds < 2 ^ 53 \<longrightarrow>
                  getRetryCount e toolName
                    = (if sg = ''-'' then - int (digitsVal ds) else int (digitsVal ds)))
             \<and> (2 ^ 1024 \<le> digitsVal ds \<longrightarrow> getRetryCount e toolName = 0))
        \<and> (raw = ws @ sg @ rest
           \<and> (rest = [] \<or> (\<not> isDigit (hd rest)
                 \<and> (sg = [] \<longrightarrow> \<not> isWhiteSpace (hd rest) \<and> hd rest \<noteq> CHR ''+''
                       \<and> hd rest \<noteq> CHR ''-'')))
         \<longrightarrow> getRetryCount e toolName = 0))"
proof (intro conjI impI)
  assume unset: "(e ''ZAI_MCP_RETRY_COUNT'' = None \<or> e ''ZAI_MCP_RETRY_COUNT'' = Some [])
      \<and> (e ''ZAI_MCP_VISION_RETRY_COUNT'' = None \<or> e ''ZAI_MCP_VISION_RETRY_COUNT'' = Some [])
      \<and> e ''Z_AI_RETRY_COUNT'' = None"
  then show "getRetryCount e toolName = (if str_includes toolName ''.vision.'' then 2 else 0)"
    by (auto simp: getRetryCount_def env_or_def js_or_def parseInt_defaults)
next
  assume set: "str_includes toolName ''.vision.''
      \<and> ((e ''ZAI_MCP_VISION_RETRY_COUNT'' = Some raw \<and> raw \<noteq> [])
          \<or> ((e ''ZAI_MCP_VISION_RETRY_COUNT'' = None \<or> e ''ZAI_MCP_VISION_RETRY_COUNT'' = Some [])
              \<and> e ''Z_AI_RETRY_COUNT'' = Some raw))
      \<and> list_all isWhiteSpace ws \<and> (sg = [] \<or> sg = ''+'' \<or> sg = ''-'')"
  then have run: "getRetryCount e toolName = (case parseInt raw of Finite parsed \<Rightarrow> parsed | _ \<Rightarrow> 0)"
    by (auto simp: getRetryCount_def js_or_def)
  from set have ws: "list_all isWhiteSpace ws" and sg: "sg = [] \<or> sg = ''+'' \<or> sg = ''-''"
    by simp_all
  {
    assume num: "raw = ws @ sg @ ds @ rest \<and> ds \<noteq> [] \<and> list_all isDigit ds
           \<and> (rest = [] \<or> \<not> isDigit (hd rest))"
    then have p: "parseInt raw = (case toDouble (digitsVal ds) of
          Some m \<Rightarrow> Finite (if sg = ''-'' then - int m else int m)
        | None \<Rightarrow> if sg = ''-'' then MinusInfinity else PlusInfinity)"
      using parseInt_numeral [OF ws sg, of ds rest] by simp
    with run show general: "getRetryCount e toolName
               = (case toDouble (digitsVal ds) of
                    Some m \<Rightarrow> if sg = ''-'' then - int m else int m
                  | None \<Rightarrow> 0)"
      by (simp split: option.splits)
    {
      assume "digitsVal ds < 2 ^ 53"
      then have "toDouble (digitsVal ds) = Some (digitsVal ds)" by (rule toDouble_small)
      with general show "getRetryCount e toolName
                    = (if sg = ''-'' then - int (digitsVal ds) else int (digitsVal ds))"
        by simp
    }
    {
      assume "2 ^ 1024 \<le> digitsVal ds"
      then have "toDouble (digitsVal ds) = None" by (rule toDouble_overflow)
      with general show "getRetryCount e toolName = 0" by simp
    }
  }
  {
    assume "raw = ws @ sg @ rest
           \<and> (rest = [] \<or> (\<not> isDigit (hd rest)
                 \<and> (sg = [] \<longrightarrow> \<not> isWhiteSpace (hd rest) \<and> hd rest \<noteq> CHR ''+''
                       \<and> hd rest \<noteq> CHR ''-'')))"
    then have "parseInt raw = NaN"
      using parseInt_NaN [OF ws sg, of rest] by simp
    with run show "getRetryCount e toolName = 0" by simp
  }
qed

lemma digitsVal_example: "digitsVal ''9007199254740993'' = 9007199254740993"
  by (simp add: digitsVal_def digitVal_def)

text \<open>
  The budget with nothing set; with the overrides \<open>5\<close>, \<open>-3\<close> behind a no-break space,
  \<open>12 tries\<close> in the legacy variable, \<open>9007199254740993\<close>, which is not a number and
  is read as its neighbour, and \<open>many\<close>; and with the legacy variable set but empty.
\<close>

theorem getRetryCount_budget_witness:
  "getRetryCount Map.empty ''zai.vision.analyze_image'' = 2
   \<and> getRetryCount Map.empty ''zai.search.webSearchPrime'' = 0
   \<and> getRetryCount [''ZAI_MCP_VISION_RETRY_COUNT'' \<mapsto> ''5''] ''zai.vision.analyze_image'' = 5
   \<and> getRetryCount [''ZAI_MCP_VISION_RETRY_COUNT'' \<mapsto> [CHR 0xA0] @ ''-3'']
        ''zai.vision.analyze_image'' = - 3
   \<and> getRetryCount [''Z_AI_RETRY_COUNT'' \<mapsto> ''12 tries''] ''zai.vision.analyze_image'' = 12
   \<and> getRetryCount [''ZAI_MCP_VISION_RETRY_COUNT'' \<mapsto> ''9007199254740993'']
        ''zai.vision.analyze_image'' = 9007199254740992
   \<and> getRetryCount [''ZAI_MCP_VISION_RETRY_COUNT'' \<mapsto> ''many''] ''zai.vision.analyze_image'' = 0
   \<and> getRetryCount [''Z_AI_RETRY_COUNT'' \<mapsto> []] ''zai.vision.analyze_image'' = 0"
proof -
  let ?v = "''zai.vision.analyze_image''"
  have v: "str_includes ?v ''.vision.''"
    by (simp add: str_includes_def sublist_Cons_right)
  have nv: "\<not> str_includes ''zai.search.webSearchPrime'' ''.vision.''"
    by (simp add: str_includes_def sublist_Cons_right)
  have a: "getRetryCount Map.empty ?v = 2"
    using getRetryCount_budget [of Map.empty ?v] v by simp
  have b: "getRetryCount Map.empty ''zai.search.webSearchPrime'' = 0"
    using getRetryCount_budget [of Map.empty "''zai.search.webSearchPrime''"] nv by simp
  have c: "getRetryCount [''ZAI_MCP_VISION_RETRY_COUNT'' \<mapsto> ''5''] ?v = 5"
    using getRetryCount_budget [of "[''ZAI_MCP_VISION_RETRY_COUNT'' \<mapsto> ''5'']" ?v "''5''"
        "[]" "[]" "''5''" "[]"] v
    by (simp add: isDigit_def digitsVal_def digitVal_def)
  have d: "getRetryCount [''ZAI_MCP_VISION_RETRY_COUNT'' \<mapsto> [CHR 0xA0] @ ''-3''] ?v = - 3"
    using getRetryCount_budget [of "[''ZAI_MCP_VISION_RETRY_COUNT'' \<mapsto> [CHR 0xA0] @ ''-3'']" ?v
        "[CHR 0xA0] @ ''-3''" "[CHR 0xA0]" "''-''" "''3''" "[]"] v
    by (simp add: isDigit_def isWhiteSpace_def digitsVal_def digitVal_def)
  have f: "getRetryCount [''Z_AI_RETRY_COUNT'' \<mapsto> ''12 tries''] ?v = 12"
    using getRetryCount_budget [of "[''Z_AI_RETRY_COUNT'' \<mapsto> ''12 tries'']" ?v "''12 tries''"
        "[]" "[]" "''12''" "'' tries''"] v
    by (simp add: isDigit_def digitsVal_def digitVal_def)
  have g: "getRetryCount [''ZAI_MCP_VISION_RETRY_COUNT'' \<mapsto> ''9007199254740993''] ?v
      = 9007199254740992"
    using getRetryCount_budget [of "[''ZAI_MCP_VISION_RETRY_COUNT'' \<mapsto> ''9007199254740993'']" ?v
        "''9007199254740993''" "[]" "[]" "''9007199254740993''" "[]"] v
    by (simp add: isDigit_def digitsVal_example toDouble_example)
  have i: "getRetryCount [''ZAI_MCP_VISION_RETRY_COUNT'' \<mapsto> ''many''] ?v = 0"
    using getRetryCount_budget [of "[''ZAI_MCP_VISION_RETRY_COUNT'' \<mapsto> ''many'']" ?v "''many''"
        "[]" "[]" _ "''many''"] v
    by (simp add: isDigit_def isWhiteSpace_def)
  have j: "getRetryCount [''Z_AI_RETRY_COUNT'' \<mapsto> []] ?v = 0"
    using getRetryCount_budget [of "[''Z_AI_RETRY_COUNT'' \<mapsto> []]" ?v "[]" "[]" "[]" _ "[]"] v
    by simp
  from a b c d f g i j show ?thesis by simp
qed

section \<open>Retrying invoker\<close>



lemma init_counters:
  "nCallTool (snd (init h cfg s)) = nCallTool s \<and> sleeps (snd (init h cfg s)) = sleeps s"
  by (auto simp: init_def doInit_def Let_def split: option.splits register_result.splits prod.splits sum.splits)







lemma sublist_map: "sublist p s \<Longrightarrow> sublist (map f p) (map f s)"
  unfolding sublist_def by (metis map_append)

lemma includes_lower:
  "str_includes s p \<Longrightarrow> toLowerCase p = p \<Longrightarrow> str_includes (toLowerCase s) p"
  using sublist_map [of p s lowerChar] by (simp add: str_includes_def toLowerCase_def)

lemma auth_shaped_not_retriable:
  assumes "cls err = IsAuthError \<or> cls err = IsValidationError
     \<or> str_includes (message err) ''401'' \<or> str_includes (message err) ''403''"
  shows "\<not> isRetriableError err"
proof -
  have l: "toLowerCase ''401'' = ''401''" "toLowerCase ''403'' = ''403''"
    by (simp_all add: lower_eval)
  from assms includes_lower [OF _ l(1), of "message err"] includes_lower [OF _ l(2), of "message err"]
  show ?thesis by (auto simp: isRetriableError_def Let_def)
qed

text \<open>
  Claim C4. When the session is ready and the tool call fails with an
  \<open>AuthError\<close>, a \<open>ValidationError\<close> or a message that contains 401 or 403, the
  error is not retriable, and the invocation ends after this one call with the classified
  error, whatever the environment configures as retry budget; nothing is slept.
\<close>

theorem callTool_non_retriable:
  assumes "init h cfg s = (Inr u, s1)" and "client s1 \<noteq> None"
    and "callTool_result h (nCallTool s1) toolName args = Inl err"
    and "cls err = IsAuthError \<or> cls err = IsValidationError
         \<or> str_includes (message err) ''401'' \<or> str_includes (message err) ''403''"
  shows "\<not> isRetriableError err
     \<and> callTool h cfg e toolName args s
         = (Inl (classifyCallError cfg err), s1\<lparr>nCallTool := Suc (nCallTool s1)\<rparr>)
     \<and> nCallTool (snd (callTool h cfg e toolName args s)) = nCallTool s + 1
     \<and> sleeps (snd (callTool h cfg e toolName args s)) = sleeps s"
proof -
  have nr: "\<not> isRetriableError err" using assms(4) by (rule auth_shaped_not_retriable)
  have run: "callTool h cfg e toolName args s
         = (Inl (classifyCallError cfg err), s1\<lparr>nCallTool := Suc (nCallTool s1)\<rparr>)"
    using assms(1,2,3) nr
    by (simp add: callTool_def) (subst callToolLoop.simps, auto simp: Let_def split: option.splits)
  from init_counters [of h cfg s] assms(1) have "nCallTool s1 = nCallTool s" "sleeps s1 = sleeps s"
    by simp_all
  with nr run show ?thesis by simp
qed

text \<open>A budget of 5 and a transport that answers 401: one call.\<close>

theorem callTool_non_retriable_witness:
  "getRetryCount [''ZAI_MCP_RETRY_COUNT'' \<mapsto> ''5''] ''zai.search.webSearchPrime'' = 5
   \<and> nCallTool (snd (callTool unauthorized_host default_constants [''ZAI_MCP_RETRY_COUNT'' \<mapsto> ''5'']
        ''zai.search.webSearchPrime'' (TObj []) (newClient Unreadable))) = 1
   \<and> fst (callTool unauthorized_host default_constants [''ZAI_MCP_RETRY_COUNT'' \<mapsto> ''5'']
        ''zai.search.webSearchPrime'' (TObj []) (newClient Unreadable))
       = Inl (AuthError ''Authentication failed: HTTP 401 Unauthorized'')"
proof -
  let ?s = "newClient Unreadable"
  let ?cfg = "default_constants"
  let ?s1 = "snd (init unauthorized_host ?cfg ?s)"
  let ?err = "Thrown IsOtherError ''HTTP 401 Unauthorized''"
  have i: "init unauthorized_host ?cfg ?s = (Inr (), ?s1)"
    by (simp add: prod_eq_iff init_def doInit_def unauthorized_host_def calm_host_def newClient_def)
  have c: "client ?s1 \<noteq> None"
    by (simp add: init_def doInit_def unauthorized_host_def calm_host_def newClient_def)
  have f: "callTool_result unauthorized_host (nCallTool ?s1) ''zai.search.webSearchPrime'' (TObj []) = Inl ?err"
    by (simp add: unauthorized_host_def calm_host_def)
  have a: "cls ?err = IsAuthError \<or> cls ?err = IsValidationError
         \<or> str_includes (message ?err) ''401'' \<or> str_includes (message ?err) ''403''"
    by (simp add: str_includes_def sublist_Cons_right)
  have p5: "parseInt ''5'' = Finite 5"
    by (rule parseInt_defaults)
  have nv: "\<not> str_includes ''zai.search.webSearchPrime'' ''.vision.''"
    by (simp add: str_includes_def sublist_Cons_right)
  have g: "getRetryCount [''ZAI_MCP_RETRY_COUNT'' \<mapsto> ''5''] ''zai.search.webSearchPrime'' = 5"
    by (simp add: getRetryCount_def nv env_or_def js_or_def p5)
  have k: "classifyCallError ?cfg ?err = AuthError ''Authentication failed: HTTP 401 Unauthorized''"
    by (simp add: classifyCallError_def isError_def str_includes_def sublist_Cons_right)
  note t = callTool_non_retriable [OF i c f a, of "[''ZAI_MCP_RETRY_COUNT'' \<mapsto> ''5'']"]
  from t have n: "nCallTool (snd (callTool unauthorized_host ?cfg [''ZAI_MCP_RETRY_COUNT'' \<mapsto> ''5'']
        ''zai.search.webSearchPrime'' (TObj []) ?s)) = nCallTool ?s + 1" by blast
  from t have "callTool unauthorized_host ?cfg [''ZAI_MCP_RETRY_COUNT'' \<mapsto> ''5'']
        ''zai.search.webSearchPrime'' (TObj []) ?s
      = (Inl (classifyCallError ?cfg ?err), ?s1\<lparr>nCallTool := Suc (nCallTool ?s1)\<rparr>)" by blast
  then have r: "fst (callTool unauthorized_host ?cfg [''ZAI_MCP_RETRY_COUNT'' \<mapsto> ''5'']
        ''zai.search.webSearchPrime'' (TObj []) ?s)
      = Inl (AuthError ''Authentication failed: HTTP 401 Unauthorized'')"
    by (simp only: fst_conv k)
  have z: "nCallTool ?s = 0" by (simp add: newClient_def)
  from g n r z show ?thesis by simp
qed

text \<open>
  Claim C5, as stated, fails: with the default constants the sixth retry sleeps 8000 ms,
  which is below \<open>base * 2 ^ 5 = 16000\<close>, the lower end of the stated interval.
\<close>

theorem retryDelay_interval_counterexample:
  "DEFAULT_RETRY_BASE_MS default_constants = Some 500
   \<and> retryDelay default_constants 6 0 = Some 8000
   \<and> \<not> ((500::int) * 2 ^ nat (6 - 1) \<le> 8000)"
  by (simp add: default_constants_def retryDelay_def backoff_def jitter_def)

text \<open>
  Claim C5, amended. For an attempt \<open>n \<ge> 1\<close>, a random number in \<open>[0, 1)\<close> and a positive
  jitter bound, the delay is \<open>min(max, base * 2^(n-1))\<close> plus a jitter in
  \<open>[0, jitterMax)\<close>; it lies between \<open>min(max, base * 2^(n-1))\<close> and that plus
  \<open>jitterMax\<close>, and is at least \<open>base * 2^(n-1)\<close> when that does not exceed \<open>max\<close>.
\<close>

theorem retryDelay_interval:
  assumes "DEFAULT_RETRY_BASE_MS cfg = Some base" and "DEFAULT_RETRY_MAX_MS cfg = Some mx"
    and "DEFAULT_RETRY_JITTER_MS cfg = Some jit" and "0 < jit"
    and "1 \<le> n" and "0 \<le> r" and "r < 1"
  shows "\<exists>d j. retryDelay cfg n r = Some d \<and> d = min mx (base * 2 ^ nat (n - 1)) + j
           \<and> 0 \<le> j \<and> j < jit
           \<and> min mx (base * 2 ^ nat (n - 1)) \<le> d \<and> d \<le> min mx (base * 2 ^ nat (n - 1)) + jit
           \<and> (base * 2 ^ nat (n - 1) \<le> mx \<longrightarrow> base * 2 ^ nat (n - 1) \<le> d)"
proof -
  let ?j = "\<lfloor>r * of_int jit\<rfloor>"
  have "0 \<le> r * of_int jit" using assms by simp
  then have lo: "0 \<le> ?j" by simp
  have "r * of_int jit < of_int jit" using assms by simp
  then have hi: "?j < jit" by (simp add: floor_less_iff)
  have "retryDelay cfg n r = Some (min mx (base * 2 ^ nat (n - 1)) + ?j)"
    using assms by (simp add: retryDelay_def backoff_def jitter_def)
  with lo hi show ?thesis by auto
qed

text \<open>The first and the sixth delay with the default constants and the random number 1/2.\<close>

theorem retryDelay_interval_witness:
  "retryDelay default_constants 1 (1 / 2) = Some 625
   \<and> retryDelay default_constants 6 (1 / 2) = Some 8125"
proof -
  have c: "DEFAULT_RETRY_BASE_MS default_constants = Some 500"
      "DEFAULT_RETRY_MAX_MS default_constants = Some 8000"
      "DEFAULT_RETRY_JITTER_MS default_constants = Some 250"
    by (simp_all add: default_constants_def)
  have f: "\<lfloor>(1 / 2 :: real) * of_int 250\<rfloor> = 125" by simp
  from retryDelay_interval [OF c, of 1 "1 / 2"]
  have a: "\<exists>d. retryDelay default_constants 1 (1 / 2) = Some d" by auto
  from retryDelay_interval [OF c, of 6 "1 / 2"]
  have b: "\<exists>d. retryDelay default_constants 6 (1 / 2) = Some d" by auto
  from a b show ?thesis
    by (simp add: retryDelay_def backoff_def jitter_def default_constants_def f)
qed

section \<open>Session teardown\<close>

text \<open>
  Claim C2, as stated, fails: on a live session whose underlying close rejects after
  10 ms, \<open>close\<close> raises the rejection and leaves the three fields as they were.
\<close>

theorem close_rejection_counterexample:
  "wf_state live_state
   \<and> fst (close rejecting_host 2000 live_state) = Inl (Thrown IsOtherError ''socket hang up'')
   \<and> session_fields (snd (snd (close rejecting_host 2000 live_state))) = (Some 0, Some (Inr ()), True)"
  by (simp add: wf_live) (simp add: close_def rejecting_host_def calm_host_def live_state_eq newClient_def session_fields_def)

text \<open>
  Claim C2, amended. \<open>close\<close> settles within the timeout whatever the underlying close
  does. When the underlying close resolves, hangs, or rejects only after the timeout,
  \<open>close\<close> resolves and the session fields are cleared. When the underlying close
  rejects within the timeout, \<open>close\<close> raises that rejection (its callers ignore it).
\<close>

theorem close_bounded:
  "fst (snd (close h timeoutMs s)) \<le> timeoutMs
   \<and> (wf_state s \<and> (\<forall>d e. close_result h (nClose s) = CloseRejects d e \<longrightarrow> timeoutMs < d)
        \<longrightarrow> fst (close h timeoutMs s) = Inr ()
          \<and> session_fields (snd (snd (close h timeoutMs s))) = (None, None, False))
   \<and> (client s \<noteq> None \<and> close_result h (nClose s) = CloseRejects d e \<and> d < timeoutMs
        \<longrightarrow> fst (close h timeoutMs s) = Inl e)"
proof (intro conjI impI)
  show "fst (snd (close h timeoutMs s)) \<le> timeoutMs"
    by (cases "close_result h (nClose s)") (auto simp: close_def Let_def split: option.splits)
next
  assume a: "wf_state s \<and> (\<forall>d e. close_result h (nClose s) = CloseRejects d e \<longrightarrow> timeoutMs < d)"
  then show "fst (close h timeoutMs s) = Inr ()"
    by (cases "close_result h (nClose s)") (auto simp: close_def Let_def split: option.splits)
  from a show "session_fields (snd (snd (close h timeoutMs s))) = (None, None, False)"
    by (cases "close_result h (nClose s)")
       (auto simp: close_def Let_def session_fields_def wf_state_def split: option.splits)
next
  assume "client s \<noteq> None \<and> close_result h (nClose s) = CloseRejects d e \<and> d < timeoutMs"
  then show "fst (close h timeoutMs s) = Inl e"
    by (auto simp: close_def Let_def split: option.splits)
qed

text \<open>A close that hangs, and a close that rejects after 10 ms, with the default timeout.\<close>

theorem close_bounded_witness:
  "fst (snd (close hanging_host 2000 live_state)) \<le> 2000
   \<and> fst (close hanging_host 2000 live_state) = Inr ()
   \<and> session_fields (snd (snd (close hanging_host 2000 live_state))) = (None, None, False)
   \<and> fst (close rejecting_host 2000 live_state) = Inl (Thrown IsOtherError ''socket hang up'')"
proof -
  have h: "\<forall>d e. close_result hanging_host (nClose live_state) = CloseRejects d e \<longrightarrow> 2000 < d"
    by (simp add: hanging_host_def calm_host_def)
  have r: "client live_state \<noteq> None
     \<and> close_result rejecting_host (nClose live_state) = CloseRejects 10 (Thrown IsOtherError ''socket hang up'')
     \<and> (10::nat) < 2000"
    by (simp add: rejecting_host_def calm_host_def live_state_eq newClient_def)
  from close_bounded [of hanging_host 2000 live_state] wf_live h
       close_bounded [of rejecting_host 2000 live_state 10 "Thrown IsOtherError ''socket hang up''"] r
  show ?thesis by blast
qed

text \<open>
  Claim C10, as stated, fails: when the first \<open>close\<close> raises, the session is still
  there, and a second \<open>close\<close> whose underlying close resolves clears it: two calls do
  not leave the state one call leaves.
\<close>

theorem close_twice_counterexample:
  "session_fields (snd (snd (close rejecting_host 2000 live_state))) = (Some 0, Some (Inr ()), True)
   \<and> session_fields (snd (snd (close rejecting_host 2000 (snd (snd (close rejecting_host 2000 live_state))))))
       = (None, None, False)"
  by (simp add: close_def rejecting_host_def calm_host_def live_state_eq newClient_def session_fields_def)

text \<open>
  Claim C10, amended. Without a session, \<open>close\<close> resolves at once and changes nothing,
  so it does not call the transport; and after a \<open>close\<close> that resolved, a second
  \<open>close\<close> changes nothing.
\<close>

theorem close_idempotent:
  "(client s = None \<longrightarrow> close h timeoutMs s = (Inr (), 0, s))
   \<and> (fst (close h timeoutMs s) = Inr () \<longrightarrow>
        close h timeoutMs' (snd (snd (close h timeoutMs s))) = (Inr (), 0, snd (snd (close h timeoutMs s))))"
  by (auto simp: close_def Let_def split: option.splits prod.splits sum.splits)

text \<open>A client that was never initialised, and a live one closed twice.\<close>

theorem close_idempotent_witness:
  "close calm_host 2000 (newClient Unreadable) = (Inr (), 0, newClient Unreadable)
   \<and> nClose (snd (snd (close calm_host 2000 live_state))) = 1
   \<and> close calm_host 2000 (snd (snd (close calm_host 2000 live_state)))
       = (Inr (), 0, snd (snd (close calm_host 2000 live_state)))"
proof -
  have a: "client (newClient Unreadable) = None" by (simp add: newClient_def)
  have b: "fst (close calm_host 2000 live_state) = Inr ()"
    by (simp add: close_def calm_host_def live_state_eq newClient_def)
  have c: "nClose (snd (snd (close calm_host 2000 live_state))) = 1"
    by (simp add: close_def calm_host_def live_state_eq newClient_def)
  from close_idempotent [of "newClient Unreadable" calm_host 2000] a
       close_idempotent [of live_state calm_host 2000 2000] b c
  show ?thesis by blast
qed

section \<open>Tool catalog cache\<close>

text \<open>
  Claim C6. With the cache enabled and a positive TTL, an entry of the current version
  captured at \<open>T\<close> is returned at \<open>T + ttl - 1\<close> and not at \<open>T + ttl + 1\<close>. The result is
  \<open>null\<close> whenever the file does not parse (or cannot be read, or holds a falsy value),
  the version differs, the cache is disabled, a refresh is forced, or the TTL is zero
  or negative.
\<close>

theorem readToolsCache_ttl:
  "(TOOL_CACHE_ENABLED cfg \<and> DEFAULT_TOOL_CACHE_TTL_MS cfg = Some ttl \<and> 0 < ttl
      \<and> version d = Some TOOL_CACHE_VERSION \<and> timestamp d = Some T \<and> tools d = Some ts
      \<longrightarrow> readToolsCache cfg False (Entry d) (T + ttl - 1) = Some ts
        \<and> readToolsCache cfg False (Entry d) (T + ttl + 1) = None)
   \<and> (file = NotJson \<or> file = Unreadable \<or> file = Falsy
        \<or> (\<exists>d'. file = Entry d' \<and> version d' \<noteq> Some TOOL_CACHE_VERSION)
        \<or> \<not> TOOL_CACHE_ENABLED cfg \<or> refresh
        \<or> (\<exists>t. DEFAULT_TOOL_CACHE_TTL_MS cfg = Some t \<and> t \<le> 0)
      \<longrightarrow> readToolsCache cfg refresh file now = None)"
  by (auto simp: readToolsCache_def Let_def split: cache_file.splits option.splits)

text \<open>The entry that \<open>writeToolsCache\<close> persists at time 1000, read with the default TTL.\<close>

theorem readToolsCache_ttl_witness:
  "cacheFile (writeToolsCache clock_host default_constants Map.empty [sample_tool] (newClient Unreadable))
     = Entry \<lparr> version = Some 1, timestamp = Some 1000, tools = Some [sample_tool] \<rparr>
   \<and> readToolsCache default_constants False
        (Entry \<lparr> version = Some 1, timestamp = Some 1000, tools = Some [sample_tool] \<rparr>) (1000 + 86400000 - 1) = Some [sample_tool]
   \<and> readToolsCache default_constants False
        (Entry \<lparr> version = Some 1, timestamp = Some 1000, tools = Some [sample_tool] \<rparr>) (1000 + 86400000 + 1) = None
   \<and> readToolsCache default_constants False NotJson 0 = None
   \<and> readToolsCache default_constants True
        (Entry \<lparr> version = Some 1, timestamp = Some 1000, tools = Some [sample_tool] \<rparr>) 1000 = None"
proof -
  let ?d = "\<lparr> version = Some 1, timestamp = Some 1000, tools = Some [sample_tool] \<rparr>"
  have w: "cacheFile (writeToolsCache clock_host default_constants Map.empty [sample_tool] (newClient Unreadable))
     = Entry ?d"
    by (simp add: writeToolsCache_def default_constants_def clock_host_def calm_host_def newClient_def TOOL_CACHE_VERSION_def
        redactTool_def sample_tool_def js_or_def redactString_def credentialPass_def testBearer_def
        bearerMatch_def)
  have pre: "TOOL_CACHE_ENABLED default_constants
      \<and> DEFAULT_TOOL_CACHE_TTL_MS default_constants = Some 86400000 \<and> (0::int) < 86400000
      \<and> version ?d = Some TOOL_CACHE_VERSION \<and> timestamp ?d = Some 1000 \<and> tools ?d = Some [sample_tool]"
    by (simp add: default_constants_def TOOL_CACHE_VERSION_def)
  from readToolsCache_ttl [of "default_constants" 86400000 ?d 1000 "[sample_tool]" NotJson False 0] pre
       readToolsCache_ttl [of "default_constants" 86400000 ?d 1000 "[sample_tool]" "Entry ?d" True 1000]
       w
  show ?thesis by simp
qed

section \<open>Name resolution\<close>

lemma find_SomeD: "find P xs = Some x \<Longrightarrow> x \<in> set xs \<and> P x"
  by (induction xs) (auto split: if_splits)

lemma first_of_two_None:
  "(case find P xs of Some x \<Rightarrow> Some x | None \<Rightarrow> find Q xs) = None
     \<longleftrightarrow> (\<forall>x\<in>set xs. \<not> P x \<and> \<not> Q x)"
proof (cases "find P xs")
  case None
  then have p: "\<forall>x\<in>set xs. \<not> P x" by (simp add: find_None_iff)
  have "(find Q xs = None) = (\<forall>x\<in>set xs. \<not> Q x)" by (auto simp: find_None_iff)
  with None p show ?thesis by auto
next
  case (Some x)
  then have "x \<in> set xs \<and> P x" by (rule find_SomeD)
  with Some show ?thesis by auto
qed

lemma findTool_None_iff:
  "findTool ts toolName = None \<longleftrightarrow>
     (\<forall>t\<in>set ts. name t \<noteq> toolName \<and> \<not> endsWith (name t) (''.'' @ toolName))"
  unfolding findTool_def by (rule first_of_two_None)

lemma init_listToolsCalls: "listToolsCalls (snd (init h cfg s)) = listToolsCalls s"
  by (auto simp: init_def doInit_def Let_def split: option.splits register_result.splits sum.splits prod.splits)

lemma writeToolsCache_listToolsCalls: "listToolsCalls (writeToolsCache h cfg e ts s) = listToolsCalls s"
  by (simp add: writeToolsCache_def Let_def)

lemma listTools_listToolsCalls:
  "listToolsCalls (snd (listTools h cfg e refresh s)) = listToolsCalls s @ [refresh]"
proof -
  have i: "\<And>s r s'. init h cfg s = (r, s') \<Longrightarrow> listToolsCalls s' = listToolsCalls s"
    using init_listToolsCalls [of h cfg] by (metis snd_conv)
  show ?thesis
    by (auto simp: listTools_def Let_def writeToolsCache_listToolsCalls
        split: option.splits sum.splits prod.splits dest!: i)
qed

lemma sample_no_match:
  "\<forall>t\<in>set [sample_tool]. name t \<noteq> ''missing'' \<and> \<not> endsWith (name t) (''.'' @ ''missing'')"
  by (simp add: sample_tool_def endsWith_def suffix_to_prefix)

lemma redactTool_sample: "redactTool Map.empty sample_tool = sample_tool"
  by (simp add: redactTool_def sample_tool_def js_or_def redactString_def credentialPass_def
        testBearer_def bearerMatch_def)

lemma findTool_sample: "findTool [sample_tool] ''missing'' = None"
  using sample_no_match by (simp only: findTool_None_iff)

text \<open>
  Claim C1, as stated, fails on the kind of the error: on the catalog that holds
  \<open>zai.vision.analyze_image\<close>, resolving \<open>missing\<close> raises an \<open>ApiError\<close> with status 400, not an \<open>UnknownToolError\<close>.
\<close>

theorem resolveToolName_unknown_counterexample:
  "fst (listTools catalog_host default_constants Map.empty False (newClient Unreadable))
     = Inr [sample_tool]
   \<and> fst (resolveToolName catalog_host default_constants Map.empty ''missing'' (newClient Unreadable))
       = Inl (Raised (ApiError ''Unknown tool: missing'' 400))
   \<and> fst (resolveToolName catalog_host default_constants Map.empty ''missing'' (newClient Unreadable))
       \<noteq> Inl (Raised (UnknownToolError ''missing''))"
  by (simp add: resolveToolName_def getTool_def listTools_def readToolsCache_def readsClock_def
       init_def doInit_def writeToolsCache_def findTool_sample redactTool_sample
       catalog_host_def calm_host_def newClient_def default_constants_def Let_def)

text \<open>
  Claim C1, amended. When the first listing succeeds and no name in it equals the
  identifier or ends with a dot and the identifier, resolution calls \<open>listTools\<close> once
  more, forced (and a forced call never reads the cache); the tool it returns is the
  exact-then-suffix match in the refreshed catalog; and when that has no match either,
  \<open>resolveToolName\<close> raises an \<open>ApiError\<close> with status 400 whose message is
  \<open>Unknown tool: \<close> followed by the identifier.
\<close>

theorem resolveToolName_unknown:
  assumes "listTools h cfg e False s = (Inr ts, s1)"
    and "\<forall>t\<in>set ts. name t \<noteq> toolName \<and> \<not> endsWith (name t) (''.'' @ toolName)"
  shows "listToolsCalls (snd (resolveToolName h cfg e toolName s)) = listToolsCalls s @ [False, True]
    \<and> readToolsCache cfg True (cacheFile s1) now = None
    \<and> (\<forall>ts2 s2. listTools h cfg e True s1 = (Inr ts2, s2) \<longrightarrow>
          getTool h cfg e toolName s = (Inr (findTool ts2 toolName), s2)
          \<and> ((\<forall>t\<in>set ts2. name t \<noteq> toolName \<and> \<not> endsWith (name t) (''.'' @ toolName)) \<longrightarrow>
               resolveToolName h cfg e toolName s
                 = (Inl (Raised (ApiError (''Unknown tool: '' @ toolName) 400)), s2)))"
proof -
  from assms(2) have none: "findTool ts toolName = None" by (simp add: findTool_None_iff)
  have c1: "listToolsCalls s1 = listToolsCalls s @ [False]"
    using listTools_listToolsCalls [of h cfg e False s] assms(1) by simp
  have c2: "listToolsCalls (snd (listTools h cfg e True s1)) = listToolsCalls s @ [False, True]"
    using listTools_listToolsCalls [of h cfg e True s1] c1 by simp
  have g: "getTool h cfg e toolName s =
     (case listTools h cfg e True s1 of
        (Inl err, s2) \<Rightarrow> (Inl err, s2)
      | (Inr ts2, s2) \<Rightarrow> (Inr (findTool ts2 toolName), s2))"
    using assms(1) none by (simp add: getTool_def)
  have calls: "listToolsCalls (snd (resolveToolName h cfg e toolName s)) = listToolsCalls s @ [False, True]"
    using c2 by (auto simp: resolveToolName_def g split: prod.splits sum.splits option.splits)
  have bypass: "readToolsCache cfg True (cacheFile s1) now = None"
    by (simp add: readToolsCache_def)
  have rest: "\<forall>ts2 s2. listTools h cfg e True s1 = (Inr ts2, s2) \<longrightarrow>
          getTool h cfg e toolName s = (Inr (findTool ts2 toolName), s2)
          \<and> ((\<forall>t\<in>set ts2. name t \<noteq> toolName \<and> \<not> endsWith (name t) (''.'' @ toolName)) \<longrightarrow>
               resolveToolName h cfg e toolName s
                 = (Inl (Raised (ApiError (''Unknown tool: '' @ toolName) 400)), s2))"
  proof (intro allI impI conjI)
    fix ts2 s2
    assume l: "listTools h cfg e True s1 = (Inr ts2, s2)"
    then show "getTool h cfg e toolName s = (Inr (findTool ts2 toolName), s2)"
      by (simp add: g)
    assume "\<forall>t\<in>set ts2. name t \<noteq> toolName \<and> \<not> endsWith (name t) (''.'' @ toolName)"
    then have "findTool ts2 toolName = None" by (simp add: findTool_None_iff)
    with l show "resolveToolName h cfg e toolName s
                 = (Inl (Raised (ApiError (''Unknown tool: '' @ toolName) 400)), s2)"
      by (simp add: g resolveToolName_def)
  qed
  from calls bypass rest show ?thesis by blast
qed

text \<open>
  Resolving \<open>missing\<close> on the catalog that holds \<open>zai.vision.analyze_image\<close>: two
  listings, the second one forced, both answered by the transport.
\<close>

theorem resolveToolName_unknown_witness:
  "listToolsCalls (snd (resolveToolName catalog_host default_constants Map.empty ''missing'' (newClient Unreadable)))
     = [False, True]
   \<and> nGetTools (snd (resolveToolName catalog_host default_constants Map.empty ''missing'' (newClient Unreadable))) = 2
   \<and> fst (resolveToolName catalog_host default_constants Map.empty ''missing'' (newClient Unreadable))
       = Inl (Raised (ApiError ''Unknown tool: missing'' 400))"
proof -
  let ?cfg = "default_constants"
  let ?s = "newClient Unreadable"
  let ?s1 = "snd (listTools catalog_host ?cfg Map.empty False ?s)"
  let ?s2 = "snd (listTools catalog_host ?cfg Map.empty True ?s1)"
  have l1: "listTools catalog_host ?cfg Map.empty False ?s = (Inr [sample_tool], ?s1)"
    by (simp add: prod_eq_iff listTools_def readToolsCache_def readsClock_def
       init_def doInit_def writeToolsCache_def catalog_host_def calm_host_def newClient_def
       default_constants_def Let_def)
  have l2: "listTools catalog_host ?cfg Map.empty True ?s1 = (Inr [sample_tool], ?s2)"
    by (simp add: prod_eq_iff listTools_def readToolsCache_def readsClock_def
       init_def doInit_def writeToolsCache_def catalog_host_def calm_host_def newClient_def
       default_constants_def Let_def)
  have n: "nGetTools (snd (resolveToolName catalog_host ?cfg Map.empty ''missing'' ?s)) = 2"
   by (simp add: resolveToolName_def getTool_def listTools_def readToolsCache_def readsClock_def
       init_def doInit_def writeToolsCache_def findTool_sample redactTool_sample
       catalog_host_def calm_host_def newClient_def default_constants_def Let_def)
  note t = resolveToolName_unknown [OF l1 sample_no_match, of 0]
  from t have a: "listToolsCalls (snd (resolveToolName catalog_host ?cfg Map.empty ''missing'' ?s))
     = listToolsCalls ?s @ [False, True]" by blast
  note t [THEN conjunct2, THEN conjunct2, THEN spec, THEN spec, THEN mp, OF l2, THEN conjunct2,
      THEN mp, OF sample_no_match]
  then have b: "fst (resolveToolName catalog_host ?cfg Map.empty ''missing'' ?s)
        = Inl (Raised (ApiError ''Unknown tool: missing'' 400))" by simp
  from a b n show ?thesis by (simp add: newClient_def)
qed

section \<open>Secret redactor\<close>

lemma takeWhile_run:
  assumes "\<forall>c\<in>set xs. P c" and "ys = [] \<or> \<not> P (hd ys)"
  shows "takeWhile P (xs @ ys) = xs" and "dropWhile P (xs @ ys) = ys"
proof -
  from assms(2) have t: "takeWhile P ys = []" and d: "dropWhile P ys = ys"
    by (cases ys; auto)+
  from assms(1) show "takeWhile P (xs @ ys) = xs" by (simp add: t)
  from assms(1) show "dropWhile P (xs @ ys) = ys" by (simp add: d)
qed

lemma drop_exact: "n = length xs \<Longrightarrow> drop n (xs @ ys) = ys"
  by simp

lemma bearerMatch_shape:
  assumes "ws \<noteq> []" and "\<forall>c\<in>set ws. isWhiteSpace c"
    and "tok \<noteq> []" and "\<forall>c\<in>set tok. \<not> isWhiteSpace c"
    and "rest = [] \<or> isWhiteSpace (hd rest)"
  shows "bearerMatch (''Bearer'' @ ws @ tok @ rest) = Some (6 + length ws + length tok)"
proof -
  have hd_tok: "tok @ rest = [] \<or> \<not> isWhiteSpace (hd (tok @ rest))"
    using assms(3,4) by (cases tok) auto
  have a: "takeWhile isWhiteSpace (ws @ tok @ rest) = ws"
    and b: "dropWhile isWhiteSpace (ws @ tok @ rest) = tok @ rest"
    using takeWhile_run [OF assms(2) hd_tok] by simp_all
  have c: "takeWhile (\<lambda>c. \<not> isWhiteSpace c) (tok @ rest) = tok"
    using takeWhile_run(1) [of tok "\<lambda>c. \<not> isWhiteSpace c" rest] assms(4,5) by simp
  show ?thesis
    using assms(1,3) by (simp add: bearerMatch_def a b c)
qed

text \<open>
  Claim C8, as stated, fails: a string in which \<open>Bearer\<close> and a token occur after other
  text is returned unchanged.
\<close>

theorem redactString_bearer_counterexample:
  "redactString ''Authorization: Bearer abc123'' None = ''Authorization: Bearer abc123''"
  by (simp add: redactString_def credentialPass_def testBearer_def bearerMatch_def)

text \<open>
  Claim C8, amended. When the string, after the replacement of the credential, begins
  with \<open>Bearer\<close>, white space and a token (a run of characters that are not white space),
  redaction replaces the token with the marker and the white space with one blank, and
  keeps what follows. A string that does not begin with \<open>Bearer\<close> is not changed by this
  rule.
\<close>

theorem redactString_bearer:
  "(credentialPass value apiKey = ''Bearer'' @ ws @ tok @ rest
      \<and> ws \<noteq> [] \<and> (\<forall>c\<in>set ws. isWhiteSpace c)
      \<and> tok \<noteq> [] \<and> (\<forall>c\<in>set tok. \<not> isWhiteSpace c)
      \<and> (rest = [] \<or> isWhiteSpace (hd rest))
      \<longrightarrow> redactString value apiKey = ''Bearer '' @ REDACTED @ rest)
   \<and> (\<not> prefix ''Bearer'' (credentialPass value apiKey)
      \<longrightarrow> redactString value apiKey = credentialPass value apiKey)"
proof (intro conjI impI)
  assume a: "credentialPass value apiKey = ''Bearer'' @ ws @ tok @ rest
      \<and> ws \<noteq> [] \<and> (\<forall>c\<in>set ws. isWhiteSpace c)
      \<and> tok \<noteq> [] \<and> (\<forall>c\<in>set tok. \<not> isWhiteSpace c)
      \<and> (rest = [] \<or> isWhiteSpace (hd rest))"
  then have m: "bearerMatch (''Bearer'' @ ws @ tok @ rest) = Some (6 + length ws + length tok)"
    by (intro bearerMatch_shape) simp_all
  have "drop (6 + length ws + length tok) ((''Bearer'' @ ws @ tok) @ rest) = rest"
    by (rule drop_exact) simp
  then have "replaceBearer (''Bearer'' @ ws @ tok @ rest) = ''Bearer '' @ REDACTED @ rest"
    using m by simp
  with a m show "redactString value apiKey = ''Bearer '' @ REDACTED @ rest"
    by (simp add: redactString_def testBearer_def)
next
  assume "\<not> prefix ''Bearer'' (credentialPass value apiKey)"
  then show "redactString value apiKey = credentialPass value apiKey"
    by (simp add: redactString_def testBearer_def bearerMatch_def)
qed

text \<open>
  A bearer token at the start of a string; one that a no-break space ends; one that a
  no-break space separates from the word; and one after other text.
\<close>

theorem redactString_bearer_witness:
  "redactString ''Bearer   abc123 trailing'' None = ''Bearer [REDACTED] trailing''
   \<and> redactString (''Bearer abc'' @ [CHR 0xA0] @ ''def'') None
       = ''Bearer [REDACTED]'' @ [CHR 0xA0] @ ''def''
   \<and> redactString (''Bearer'' @ [CHR 0xA0] @ ''abc123'') None = ''Bearer [REDACTED]''
   \<and> redactString ''token: Bearer abc123'' (Some ''secret123'') = ''token: Bearer abc123''"
proof -
  have c1: "credentialPass ''Bearer   abc123 trailing'' None = ''Bearer'' @ ''   '' @ ''abc123'' @ '' trailing''"
    by (simp add: credentialPass_def)
  have c2: "credentialPass ''token: Bearer abc123'' (Some ''secret123'') = ''token: Bearer abc123''"
    by (simp add: credentialPass_def str_includes_def sublist_Cons_right)
  have c3: "credentialPass (''Bearer abc'' @ [CHR 0xA0] @ ''def'') None
      = ''Bearer'' @ '' '' @ ''abc'' @ ([CHR 0xA0] @ ''def'')"
    by (simp add: credentialPass_def)
  have c4: "credentialPass (''Bearer'' @ [CHR 0xA0] @ ''abc123'') None
      = ''Bearer'' @ [CHR 0xA0] @ ''abc123'' @ []"
    by (simp add: credentialPass_def)
  have p: "''   '' \<noteq> [] \<and> (\<forall>c\<in>set ''   ''. isWhiteSpace c)
      \<and> ''abc123'' \<noteq> [] \<and> (\<forall>c\<in>set ''abc123''. \<not> isWhiteSpace c)
      \<and> ('' trailing'' = [] \<or> isWhiteSpace (hd '' trailing''))"
    by (simp add: isWhiteSpace_def)
  have p3: "'' '' \<noteq> [] \<and> (\<forall>c\<in>set '' ''. isWhiteSpace c)
      \<and> ''abc'' \<noteq> [] \<and> (\<forall>c\<in>set ''abc''. \<not> isWhiteSpace c)
      \<and> ([CHR 0xA0] @ ''def'' = [] \<or> isWhiteSpace (hd ([CHR 0xA0] @ ''def'')))"
    by (simp add: isWhiteSpace_def)
  have p4: "[CHR 0xA0] \<noteq> [] \<and> (\<forall>c\<in>set [CHR 0xA0]. isWhiteSpace c)
      \<and> ''abc123'' \<noteq> [] \<and> (\<forall>c\<in>set ''abc123''. \<not> isWhiteSpace c)
      \<and> (([] :: string) = [] \<or> isWhiteSpace (hd []))"
    by (simp add: isWhiteSpace_def)
  have np: "\<not> prefix ''Bearer'' (credentialPass ''token: Bearer abc123'' (Some ''secret123''))"
    by (simp add: c2)
  from redactString_bearer [of "''Bearer   abc123 trailing''" None "''   ''" "''abc123''" "'' trailing''"] c1 p
  have a: "redactString ''Bearer   abc123 trailing'' None = ''Bearer '' @ REDACTED @ '' trailing''"
    by blast
  from redactString_bearer [of "''Bearer abc'' @ [CHR 0xA0] @ ''def''" None "'' ''" "''abc''"
      "[CHR 0xA0] @ ''def''"] c3 p3
  have a3: "redactString (''Bearer abc'' @ [CHR 0xA0] @ ''def'') None
      = ''Bearer '' @ REDACTED @ ([CHR 0xA0] @ ''def'')"
    by blast
  from redactString_bearer [of "''Bearer'' @ [CHR 0xA0] @ ''abc123''" None "[CHR 0xA0]" "''abc123''"
      "[]"] c4 p4
  have a4: "redactString (''Bearer'' @ [CHR 0xA0] @ ''abc123'') None = ''Bearer '' @ REDACTED @ []"
    by blast
  from redactString_bearer [of "''token: Bearer abc123''" "Some ''secret123''"] np c2
  have b: "redactString ''token: Bearer abc123'' (Some ''secret123'') = ''token: Bearer abc123''"
    by simp
  from a a3 a4 b show ?thesis by (simp add: REDACTED_def)
qed

subsection \<open>Replacing the credential\<close>







subsection \<open>Copying in the store\<close>
































end
